theory Spec2Isabelle
  imports Complex_Main "HOL-Library.Char_ord" "HOL-Library.List_Lexorder"
begin

section \<open>The task document (server/models/Task.js)\<close>

text \<open>
  A task is a MongoDB document shaped by \<^verbatim>\<open>TaskSchema\<close>; \<open>task_id\<close> is its \<^verbatim>\<open>_id\<close>.
  An ObjectId is modelled by its numeric value and a \<^verbatim>\<open>Date\<close> by its instant in
  milliseconds since the epoch. The two string fields with an \<^verbatim>\<open>enum\<close> validator are
  datatypes; \<open>priority_str\<close> and \<open>status_str\<close> give the strings that are stored.

  A \<^verbatim>\<open>Date\<close> path without a default has three states in a stored document: the key is
  absent (\<open>Missing\<close>, what Mongoose writes when the path was never set or was set to
  \<^verbatim>\<open>undefined\<close>), the key holds \<^verbatim>\<open>null\<close>, or it holds a date.
\<close>

type_synonym oid = nat
type_synonym instant = int

datatype priority = Low | Medium | High

datatype status = Todo | InProgress | Completed

datatype date_field = Missing | Null | Date instant

fun priority_str :: "priority \<Rightarrow> string" where
  "priority_str Low = ''low''"
| "priority_str Medium = ''medium''"
| "priority_str High = ''high''"

fun status_str :: "status \<Rightarrow> string" where
  "status_str Todo = ''todo''"
| "status_str InProgress = ''in-progress''"
| "status_str Completed = ''completed''"

record task =
  task_id :: oid
  title :: string
  description :: "string option"
  priority :: priority
  status :: status
  user :: oid
  dueDate :: date_field
  completedAt :: date_field
  tags :: "string list"
  isArchived :: bool
  createdAt :: instant
  updatedAt :: instant

text \<open>JavaScript truthiness of a date path read from a document: only a date is truthy.\<close>

fun truthy :: "date_field \<Rightarrow> bool" where
  "truthy (Date d) = True"
| "truthy Missing = False"
| "truthy Null = False"

subsection \<open>The pre-save middleware\<close>

text \<open>
  \<^verbatim>\<open>TaskSchema.pre('save', ...)\<close>. The first argument is \<^verbatim>\<open>this.isModified('status')\<close>,
  the second is \<^verbatim>\<open>new Date()\<close>. Assigning \<^verbatim>\<open>undefined\<close> removes the key.
\<close>

definition pre_save :: "bool \<Rightarrow> instant \<Rightarrow> task \<Rightarrow> task" where
  "pre_save status_modified now t =
     (if status_modified then
        (if status t = Completed \<and> \<not> truthy (completedAt t) then t\<lparr>completedAt := Date now\<rparr>
         else if status t \<noteq> Completed then t\<lparr>completedAt := Missing\<rparr>
         else t)
      else t)"

subsection \<open>The \<^verbatim>\<open>isOverdue\<close> virtual\<close>

text \<open>
  \<^verbatim>\<open>this.dueDate && this.dueDate < new Date() && this.status !== 'completed'\<close>, read as
  a condition.
\<close>

definition isOverdue :: "instant \<Rightarrow> task \<Rightarrow> bool" where
  "isOverdue now t =
     (case dueDate t of
        Date d \<Rightarrow> d < now \<and> status t \<noteq> Completed
      | Missing \<Rightarrow> False
      | Null \<Rightarrow> False)"

subsection \<open>Outcomes\<close>

text \<open>
  A request ends in one of three ways: a success response is sent (\<open>Inr\<close>), the
  controller or a validation middleware sends an error response itself (\<open>Http\<close> with
  the status code and the \<^verbatim>\<open>message\<close>; \<open>Validation\<close> for the response of
  \<^verbatim>\<open>handleValidationErrors\<close>: status 400, message \<^verbatim>\<open>Validation failed\<close> and the
  messages of the failed checks), or an exception reaches the controller's \<^verbatim>\<open>catch\<close>
  and is handed to \<^verbatim>\<open>next(error)\<close> (\<open>Thrown\<close> with the error's name; the error
  middleware is not part of the sources).
\<close>

datatype failure = Http nat string | Validation "string list" | Thrown string

subsection \<open>The statistics aggregation\<close>

text \<open>
  \<^verbatim>\<open>TaskSchema.statics.getTaskStats\<close> runs a two-stage pipeline. The expression
  operators \<^verbatim>\<open>$lt\<close> and \<^verbatim>\<open>$ne\<close> compare BSON values of any type: first by the canonical
  rank of the type, then by value. A field path that names an absent key evaluates to
  the missing value, whose rank (0) is below that of \<^verbatim>\<open>null\<close> (5), which is below that
  of a date (45). So in an aggregation expression the missing value is not equal to
  \<^verbatim>\<open>null\<close>, and it is less than every date.
\<close>

fun canonical_rank :: "date_field \<Rightarrow> nat" where
  "canonical_rank Missing = 0"
| "canonical_rank Null = 5"
| "canonical_rank (Date d) = 45"

fun agg_lt :: "date_field \<Rightarrow> date_field \<Rightarrow> bool" where
  "agg_lt (Date a) (Date b) = (a < b)"
| "agg_lt x y = (canonical_rank x < canonical_rank y)"

definition agg_ne :: "date_field \<Rightarrow> date_field \<Rightarrow> bool" where
  "agg_ne x y = (\<not> (x = y))"

record task_stats =
  total :: nat
  completed :: nat
  inProgress :: nat
  todo :: nat
  highPriority :: nat
  overdue :: nat

text \<open>\<^verbatim>\<open>{ $sum: { $cond: [c, 1, 0] } }\<close> over the documents of the group.\<close>

definition sum_cond :: "(task \<Rightarrow> bool) \<Rightarrow> task list \<Rightarrow> nat" where
  "sum_cond c ts = sum_list (map (\<lambda>t. if c t then 1 else 0) ts)"

definition match_stage :: "oid \<Rightarrow> task list \<Rightarrow> task list" where
  "match_stage userId ts = filter (\<lambda>t. user t = userId \<and> isArchived t = False) ts"

definition overdue_cond :: "instant \<Rightarrow> task \<Rightarrow> bool" where
  "overdue_cond now t =
     (agg_lt (dueDate t) (Date now) \<and> status t \<noteq> Completed \<and> agg_ne (dueDate t) Null)"

text \<open>
  \<^verbatim>\<open>$group\<close> with \<^verbatim>\<open>_id: null\<close> emits one document for a non-empty input and none
  for an empty input. (The \<^verbatim>\<open>_id: null\<close> key of the emitted document is left out of
  \<open>task_stats\<close>.)
\<close>

definition group_stage :: "instant \<Rightarrow> task list \<Rightarrow> task_stats list" where
  "group_stage now ts =
     (if ts = [] then []
      else [\<lparr> total = sum_list (map (\<lambda>t. 1) ts),
              completed = sum_cond (\<lambda>t. status t = Completed) ts,
              inProgress = sum_cond (\<lambda>t. status t = InProgress) ts,
              todo = sum_cond (\<lambda>t. status t = Todo) ts,
              highPriority = sum_cond (\<lambda>t. priority t = High) ts,
              overdue = sum_cond (overdue_cond now) ts \<rparr>])"

definition aggregate :: "instant \<Rightarrow> oid \<Rightarrow> task list \<Rightarrow> task_stats list" where
  "aggregate now userId db = group_stage now (match_stage userId db)"

text \<open>
  The \<^verbatim>\<open>$match\<close> stage is built with \<^verbatim>\<open>mongoose.Types.ObjectId(userId)\<close>, a call
  without \<^verbatim>\<open>new\<close>. Up to Mongoose 6 the call returns the ObjectId. From Mongoose 7 on
  \<^verbatim>\<open>ObjectId\<close> is a class, and the call throws a \<^verbatim>\<open>TypeError\<close> before the pipeline is
  sent. The sources pin no version of Mongoose, so what the call does is a parameter.
\<close>

datatype objectid_call = ReturnsId | ThrowsTypeError

definition call_ObjectId :: "objectid_call \<Rightarrow> oid \<Rightarrow> failure + oid" where
  "call_ObjectId lib userId =
     (case lib of ReturnsId \<Rightarrow> Inr userId | ThrowsTypeError \<Rightarrow> Inl (Thrown ''TypeError''))"

text \<open>
  \<^verbatim>\<open>getTaskStats\<close>: the call, the pipeline, and
  \<^verbatim>\<open>return stats[0] || { total: 0, ... }\<close>. An exception leaves the static method
  and reaches the \<^verbatim>\<open>catch\<close> of the controller of the same name.
\<close>

definition getTaskStats ::
  "objectid_call \<Rightarrow> instant \<Rightarrow> oid \<Rightarrow> task list \<Rightarrow> failure + task_stats" where
  "getTaskStats lib now userId db =
     (case call_ObjectId lib userId of
        Inl e \<Rightarrow> Inl e
      | Inr u \<Rightarrow>
          Inr (case aggregate now u db of
                 [] \<Rightarrow> \<lparr> total = 0, completed = 0, inProgress = 0, todo = 0,
                         highPriority = 0, overdue = 0 \<rparr>
               | s # rest \<Rightarrow> s))"

section \<open>The task controller (server/controllers/taskController.js)\<close>

text \<open>
  The collection is the list of its documents; every controller takes it and returns
  it, changed or not, and ends in one of the outcomes above.
\<close>

text \<open>
  \<^verbatim>\<open>req.body\<close> of a create or update request, and \<^verbatim>\<open>updates\<close> of a bulk update, after
  Mongoose has cast it to the schema (keys that are not schema paths are dropped in
  strict mode; \<^verbatim>\<open>_id\<close> cannot be written). An absent key is \<open>None\<close>, or \<open>Missing\<close>
  for a date path; \<^verbatim>\<open>priority\<close> and \<^verbatim>\<open>status\<close> carry values of the enum.
\<close>

record task_body =
  b_title :: "string option"
  b_description :: "string option"
  b_priority :: "priority option"
  b_status :: "status option"
  b_user :: "oid option"
  b_dueDate :: date_field
  b_completedAt :: date_field
  b_tags :: "string list option"
  b_isArchived :: "bool option"

text \<open>The \<^verbatim>\<open>trim: true\<close> setter (\<^verbatim>\<open>String.prototype.trim\<close> on a byte string).\<close>

definition is_space :: "char \<Rightarrow> bool" where
  "is_space c = (of_char c \<in> {9, 10, 11, 12, 13, 32, 160 :: nat})"

definition trim :: "string \<Rightarrow> string" where
  "trim s = rev (dropWhile is_space (rev (dropWhile is_space s)))"

text \<open>
  The schema's validators on the paths a payload sets: \<^verbatim>\<open>required\<close> and \<^verbatim>\<open>maxlength\<close>
  of \<^verbatim>\<open>title\<close>, \<^verbatim>\<open>maxlength\<close> of \<^verbatim>\<open>description\<close> and of every tag. They run on save,
  and on an update because of \<^verbatim>\<open>runValidators: true\<close>.
\<close>

definition validators_pass :: "task_body \<Rightarrow> bool" where
  "validators_pass b =
     ((case b_title b of None \<Rightarrow> True | Some s \<Rightarrow> 0 < length (trim s) \<and> length (trim s) \<le> 200) \<and>
      (case b_description b of None \<Rightarrow> True | Some s \<Rightarrow> length (trim s) \<le> 1000) \<and>
      (case b_tags b of None \<Rightarrow> True | Some ts \<Rightarrow> list_all (\<lambda>s. length (trim s) \<le> 50) ts))"

text \<open>\<^verbatim>\<open>new Task(body)\<close>: the setters and the defaults of the schema, and the timestamps.\<close>

definition new_task :: "instant \<Rightarrow> oid \<Rightarrow> oid \<Rightarrow> task_body \<Rightarrow> task" where
  "new_task now new_id owner b =
     \<lparr> task_id = new_id,
       title = (case b_title b of None \<Rightarrow> [] | Some s \<Rightarrow> trim s),
       description = map_option trim (b_description b),
       priority = (case b_priority b of None \<Rightarrow> Medium | Some p \<Rightarrow> p),
       status = (case b_status b of None \<Rightarrow> Todo | Some s \<Rightarrow> s),
       user = owner,
       dueDate = b_dueDate b,
       completedAt = b_completedAt b,
       tags = (case b_tags b of None \<Rightarrow> [] | Some ts \<Rightarrow> map trim ts),
       isArchived = (case b_isArchived b of None \<Rightarrow> False | Some a \<Rightarrow> a),
       createdAt = now,
       updatedAt = now \<rparr>"

text \<open>
  \<^verbatim>\<open>createTask\<close>: \<^verbatim>\<open>req.body.user = req.user.id; Task.create(req.body)\<close>. \<open>new_id\<close> is
  the ObjectId the driver generates. \<^verbatim>\<open>Task.create\<close> validates, runs the pre-save
  middleware (a path given in the payload counts as modified, a defaulted one does not)
  and inserts.
\<close>

definition createTask ::
  "instant \<Rightarrow> oid \<Rightarrow> oid \<Rightarrow> task_body \<Rightarrow> task list \<Rightarrow> (failure + task) \<times> task list" where
  "createTask now new_id uid body db =
     (let body' = body\<lparr>b_user := Some uid\<rparr> in
      case b_user body' of
        None \<Rightarrow> (Inl (Thrown ''ValidationError''), db)
      | Some owner \<Rightarrow>
          if b_title body' = None then (Inl (Thrown ''ValidationError''), db)
          else if validators_pass body' then
            (let t = pre_save (b_status body' \<noteq> None) now (new_task now new_id owner body')
             in (Inr t, db @ [t]))
          else (Inl (Thrown ''ValidationError''), db))"

text \<open>\<^verbatim>\<open>Task.findOne({ _id: req.params.id, user: req.user.id })\<close>\<close>

definition findOne :: "oid \<Rightarrow> oid \<Rightarrow> task list \<Rightarrow> task option" where
  "findOne tid uid db = find (\<lambda>t. task_id t = tid \<and> user t = uid) db"

definition getTask :: "oid \<Rightarrow> oid \<Rightarrow> task list \<Rightarrow> failure + task" where
  "getTask uid tid db =
     (case findOne tid uid db of
        None \<Rightarrow> Inl (Http 404 ''Task not found'')
      | Some t \<Rightarrow> Inr t)"

text \<open>
  What an update writes into one document: the payload's keys under \<^verbatim>\<open>$set\<close>, and
  \<^verbatim>\<open>updatedAt\<close> (the schema has \<^verbatim>\<open>timestamps: true\<close>). Query updates
  (\<^verbatim>\<open>findByIdAndUpdate\<close>, \<^verbatim>\<open>updateMany\<close>) go to the database directly: Mongoose runs
  no \<^verbatim>\<open>save\<close> middleware for them.
\<close>

definition apply_update :: "instant \<Rightarrow> task_body \<Rightarrow> task \<Rightarrow> task" where
  "apply_update now b t =
     t\<lparr> title := (case b_title b of None \<Rightarrow> title t | Some s \<Rightarrow> trim s),
        description := (case b_description b of None \<Rightarrow> description t | Some s \<Rightarrow> Some (trim s)),
        priority := (case b_priority b of None \<Rightarrow> priority t | Some p \<Rightarrow> p),
        status := (case b_status b of None \<Rightarrow> status t | Some s \<Rightarrow> s),
        user := (case b_user b of None \<Rightarrow> user t | Some u \<Rightarrow> u),
        dueDate := (case b_dueDate b of Missing \<Rightarrow> dueDate t | Null \<Rightarrow> Null | Date d \<Rightarrow> Date d),
        completedAt :=
          (case b_completedAt b of Missing \<Rightarrow> completedAt t | Null \<Rightarrow> Null | Date d \<Rightarrow> Date d),
        tags := (case b_tags b of None \<Rightarrow> tags t | Some ts \<Rightarrow> map trim ts),
        isArchived := (case b_isArchived b of None \<Rightarrow> isArchived t | Some a \<Rightarrow> a),
        updatedAt := now \<rparr>"

text \<open>
  \<^verbatim>\<open>Task.findByIdAndUpdate(id, body, { new: true, runValidators: true })\<close>: the updated
  document (\<^verbatim>\<open>null\<close> when no document has the id) and the collection.
\<close>

definition findByIdAndUpdate ::
  "instant \<Rightarrow> oid \<Rightarrow> task_body \<Rightarrow> task list \<Rightarrow> failure + (task option \<times> task list)" where
  "findByIdAndUpdate now tid body db =
     (if validators_pass body then
        Inr (map_option (apply_update now body) (find (\<lambda>t. task_id t = tid) db),
             map (\<lambda>t. if task_id t = tid then apply_update now body t else t) db)
      else Inl (Thrown ''ValidationError''))"

definition updateTask ::
  "instant \<Rightarrow> oid \<Rightarrow> oid \<Rightarrow> task_body \<Rightarrow> task list \<Rightarrow> (failure + task) \<times> task list" where
  "updateTask now uid tid body db =
     (case findOne tid uid db of
        None \<Rightarrow> (Inl (Http 404 ''Task not found''), db)
      | Some found \<Rightarrow>
          (case findByIdAndUpdate now tid body db of
             Inl e \<Rightarrow> (Inl e, db)
           | Inr (None, db') \<Rightarrow> (Inl (Thrown ''TypeError''), db')
           | Inr (Some t, db') \<Rightarrow> (Inr t, db')))"

text \<open>\<^verbatim>\<open>deleteTask\<close>: \<^verbatim>\<open>task.deleteOne()\<close> removes the document with the task's \<^verbatim>\<open>_id\<close>.\<close>

definition deleteTask :: "oid \<Rightarrow> oid \<Rightarrow> task list \<Rightarrow> (failure + unit) \<times> task list" where
  "deleteTask uid tid db =
     (case findOne tid uid db of
        None \<Rightarrow> (Inl (Http 404 ''Task not found''), db)
      | Some t \<Rightarrow> (Inr (), filter (\<lambda>d. \<not> (task_id d = task_id t)) db))"

text \<open>
  \<^verbatim>\<open>toggleArchiveTask\<close>: \<^verbatim>\<open>task.isArchived = !task.isArchived; await task.save()\<close>. The
  save runs the pre-save middleware with \<^verbatim>\<open>status\<close> unmodified, stamps \<^verbatim>\<open>updatedAt\<close>
  and writes the document back under its \<^verbatim>\<open>_id\<close>.
\<close>

definition save :: "bool \<Rightarrow> instant \<Rightarrow> task \<Rightarrow> task list \<Rightarrow> task \<times> task list" where
  "save status_modified now t db =
     (let t' = (pre_save status_modified now t)\<lparr>updatedAt := now\<rparr>
      in (t', map (\<lambda>d. if task_id d = task_id t' then t' else d) db))"

definition toggleArchiveTask ::
  "instant \<Rightarrow> oid \<Rightarrow> oid \<Rightarrow> task list \<Rightarrow> (failure + task) \<times> task list" where
  "toggleArchiveTask now uid tid db =
     (case findOne tid uid db of
        None \<Rightarrow> (Inl (Http 404 ''Task not found''), db)
      | Some t \<Rightarrow>
          (case save False now (t\<lparr>isArchived := \<not> isArchived t\<rparr>) db of
             (t', db') \<Rightarrow> (Inr t', db')))"

text \<open>
  An element of \<^verbatim>\<open>req.body.taskIds\<close>. The route \<^verbatim>\<open>PATCH /api/tasks/bulk\<close> declares
  \<^verbatim>\<open>isMongoId\<close> for the elements but has no \<^verbatim>\<open>handleValidationErrors\<close> in its chain,
  so every array reaches the controller: an element is a value that Mongoose casts to an
  ObjectId (\<open>Oid\<close>), or one that it cannot cast (\<open>NotAnId\<close>, with the value's text).
  Casting the filter \<^verbatim>\<open>{ _id: { $in: taskIds }, user: req.user.id }\<close> fails with a
  \<^verbatim>\<open>CastError\<close> as soon as one element cannot be cast.
\<close>

datatype id_input = Oid oid | NotAnId string

fun cast_ids :: "id_input list \<Rightarrow> oid list option" where
  "cast_ids [] = Some []"
| "cast_ids (Oid i # rest) = map_option ((#) i) (cast_ids rest)"
| "cast_ids (NotAnId s # rest) = None"

definition bulk_filter :: "oid list \<Rightarrow> oid \<Rightarrow> task \<Rightarrow> bool" where
  "bulk_filter ids uid t = (task_id t \<in> set ids \<and> user t = uid)"

text \<open>
  \<^verbatim>\<open>Task.updateMany(filter, updates, { runValidators: true })\<close> with that filter.
  Mongoose casts the filter, then casts and validates the update, then sends it;
  \<^verbatim>\<open>modifiedCount\<close> counts the matched documents that the update changed.
\<close>

definition updateMany ::
  "instant \<Rightarrow> id_input list \<Rightarrow> oid \<Rightarrow> task_body \<Rightarrow> task list \<Rightarrow> failure + (nat \<times> task list)" where
  "updateMany now taskIds uid updates db =
     (case cast_ids taskIds of
        None \<Rightarrow> Inl (Thrown ''CastError'')
      | Some ids \<Rightarrow>
          if validators_pass updates then
            Inr (length (filter (\<lambda>t. bulk_filter ids uid t \<and>
                                      \<not> (apply_update now updates t = t)) db),
                 map (\<lambda>t. if bulk_filter ids uid t then apply_update now updates t else t) db)
          else Inl (Thrown ''ValidationError''))"

text \<open>
  \<^verbatim>\<open>bulkUpdateTasks\<close>. \<open>taskIds\<close> is \<open>None\<close> when \<^verbatim>\<open>req.body.taskIds\<close> is absent or is
  not an array. \<^verbatim>\<open>updates\<close> is a JSON object (an absent one counts as the empty object).
  The success response carries \<^verbatim>\<open>modifiedCount\<close>.
\<close>

definition bulkUpdateTasks ::
  "instant \<Rightarrow> oid \<Rightarrow> id_input list option \<Rightarrow> task_body \<Rightarrow> task list
     \<Rightarrow> (failure + nat) \<times> task list" where
  "bulkUpdateTasks now uid taskIds updates db =
     (case taskIds of
        None \<Rightarrow> (Inl (Http 400 ''Task IDs array is required''), db)
      | Some ids \<Rightarrow>
          if ids = [] then (Inl (Http 400 ''Task IDs array is required''), db)
          else
            (case updateMany now ids uid updates db of
               Inl e \<Rightarrow> (Inl e, db)
             | Inr (n, db') \<Rightarrow> (Inr n, db')))"

subsection \<open>Listing: \<^verbatim>\<open>validateTaskQuery\<close> and \<^verbatim>\<open>getTasks\<close>\<close>

text \<open>
  \<^verbatim>\<open>req.query\<close>. A key that is absent is \<open>None\<close>. \<^verbatim>\<open>page\<close> and \<^verbatim>\<open>limit\<close> are integer
  strings, held as the integers they denote, and \<^verbatim>\<open>priority\<close>, \<^verbatim>\<open>status\<close>, \<^verbatim>\<open>sortBy\<close>
  and \<^verbatim>\<open>sortOrder\<close> are values of their lists (\<^verbatim>\<open>isInt\<close> and \<^verbatim>\<open>isIn\<close> reject
  anything else before the controller runs).
\<close>

datatype sort_field = SortTitle | SortPriority | SortStatus | SortCreatedAt | SortUpdatedAt

datatype sort_order = Asc | Desc

record task_query =
  q_page :: "int option"
  q_limit :: "int option"
  q_search :: "string option"
  q_priority :: "priority option"
  q_status :: "status option"
  q_sortBy :: "sort_field option"
  q_sortOrder :: "sort_order option"
  q_includeArchived :: "string option"

text \<open>The range checks of \<^verbatim>\<open>validateTaskQuery\<close>, with their messages.\<close>

definition validateTaskQuery :: "task_query \<Rightarrow> string list" where
  "validateTaskQuery q =
     (case q_page q of
        None \<Rightarrow> []
      | Some p \<Rightarrow> if 1 \<le> p then [] else [''Page must be a positive integer'']) @
     (case q_limit q of
        None \<Rightarrow> []
      | Some l \<Rightarrow> if 1 \<le> l \<and> l \<le> 100 then [] else [''Limit must be between 1 and 100''])"

text \<open>
  The filter object built by \<^verbatim>\<open>getTasks\<close>. \<open>rx pattern text\<close> is MongoDB's
  \<^verbatim>\<open>$regex\<close> match with option \<^verbatim>\<open>i\<close>; the regular expression engine is a parameter.
  \<^verbatim>\<open>if (search)\<close> skips an empty string.
\<close>

definition query_matches :: "(string \<Rightarrow> string \<Rightarrow> bool) \<Rightarrow> oid \<Rightarrow> task_query \<Rightarrow> task \<Rightarrow> bool" where
  "query_matches rx uid q t =
     (user t = uid \<and>
      (if q_includeArchived q = Some ''true'' then True else isArchived t = False) \<and>
      (case q_search q of
         None \<Rightarrow> True
       | Some s \<Rightarrow>
           if s = [] then True
           else (rx s (title t) \<or> (case description t of None \<Rightarrow> False | Some d \<Rightarrow> rx s d))) \<and>
      (case q_priority q of None \<Rightarrow> True | Some p \<Rightarrow> priority t = p) \<and>
      (case q_status q of None \<Rightarrow> True | Some s \<Rightarrow> status t = s))"

text \<open>
  \<^verbatim>\<open>.sort({ [sortBy]: 1 | -1 })\<close>. MongoDB orders the documents by the stored value of
  the path: strings by binary comparison (the lexicographic order of their bytes), dates
  by instant. \<^verbatim>\<open>priority\<close> and \<^verbatim>\<open>status\<close> are stored as strings. The order among
  documents with equal keys is not fixed by MongoDB; here they keep their order
  ascending and reverse it descending.
\<close>

definition sort_dir :: "sort_order \<Rightarrow> 'a list \<Rightarrow> 'a list" where
  "sort_dir ord xs = (case ord of Asc \<Rightarrow> xs | Desc \<Rightarrow> rev xs)"

fun mongo_sort :: "sort_field \<Rightarrow> sort_order \<Rightarrow> task list \<Rightarrow> task list" where
  "mongo_sort SortTitle ord ts = sort_dir ord (sort_key title ts)"
| "mongo_sort SortPriority ord ts = sort_dir ord (sort_key (\<lambda>t. priority_str (priority t)) ts)"
| "mongo_sort SortStatus ord ts = sort_dir ord (sort_key (\<lambda>t. status_str (status t)) ts)"
| "mongo_sort SortCreatedAt ord ts = sort_dir ord (sort_key createdAt ts)"
| "mongo_sort SortUpdatedAt ord ts = sort_dir ord (sort_key updatedAt ts)"

text \<open>
  \<^verbatim>\<open>.limit(n)\<close>: zero means no limit, a negative number limits to its absolute value.
  A negative \<^verbatim>\<open>skip\<close> is rejected by MongoDB. Neither happens behind \<^verbatim>\<open>validateTaskQuery\<close>.
\<close>

definition mongo_limit :: "int \<Rightarrow> 'a list \<Rightarrow> 'a list" where
  "mongo_limit n xs = (if n = 0 then xs else take (nat \<bar>n\<bar>) xs)"

text \<open>
  The list response: \<^verbatim>\<open>count\<close>, \<^verbatim>\<open>total\<close>, \<^verbatim>\<open>pagination.page\<close>,
  \<^verbatim>\<open>pagination.limit\<close>, \<^verbatim>\<open>pagination.pages\<close> and \<^verbatim>\<open>data\<close>. \<^verbatim>\<open>pages\<close> is
  \<^verbatim>\<open>Math.ceil(total / limit)\<close>; for a zero limit the quotient is not finite and the JSON
  value is \<^verbatim>\<open>null\<close> (\<open>None\<close>). Document counts are far below \<open>2 ^ 53\<close>, where the
  double-precision quotient has the ceiling of the exact one. (\<^verbatim>\<open>populate\<close> only
  decorates the documents and is left out.)
\<close>

record task_page =
  r_count :: nat
  r_total :: nat
  r_page :: int
  r_limit :: int
  r_pages :: "int option"
  r_data :: "task list"

definition getTasks ::
  "(string \<Rightarrow> string \<Rightarrow> bool) \<Rightarrow> oid \<Rightarrow> task_query \<Rightarrow> task list \<Rightarrow> failure + task_page" where
  "getTasks rx uid q db =
     (let page = (case q_page q of None \<Rightarrow> 1 | Some p \<Rightarrow> p);
          limit = (case q_limit q of None \<Rightarrow> 10 | Some l \<Rightarrow> l);
          sortBy = (case q_sortBy q of None \<Rightarrow> SortCreatedAt | Some f \<Rightarrow> f);
          sortOrder = (case q_sortOrder q of None \<Rightarrow> Desc | Some ord \<Rightarrow> ord);
          found = filter (query_matches rx uid q) db;
          skip = (page - 1) * limit
      in if skip < 0 then Inl (Thrown ''MongoServerError'')
         else
           (let tasks = mongo_limit limit (drop (nat skip) (mongo_sort sortBy sortOrder found));
                total = length found
            in Inr \<lparr> r_count = length tasks,
                     r_total = total,
                     r_page = page,
                     r_limit = limit,
                     r_pages = (if limit = 0 then None
                                else Some \<lceil>real total / real_of_int limit\<rceil>),
                     r_data = tasks \<rparr>))"

text \<open>The route \<^verbatim>\<open>GET /api/tasks\<close>: \<^verbatim>\<open>.get(validateTaskQuery, getTasks)\<close>.\<close>

definition route_getTasks ::
  "(string \<Rightarrow> string \<Rightarrow> bool) \<Rightarrow> oid \<Rightarrow> task_query \<Rightarrow> task list \<Rightarrow> failure + task_page" where
  "route_getTasks rx uid q db =
     (case validateTaskQuery q of
        [] \<Rightarrow> getTasks rx uid q db
      | e # es \<Rightarrow> Inl (Validation (e # es)))"

section \<open>The client (src/utils/auth.ts, src/utils/api.ts, the Dashboard component)\<close>

text \<open>
  The client's \<^verbatim>\<open>User\<close> and \<^verbatim>\<open>Task\<close> interfaces. Strings are byte strings. An ISO-8601
  timestamp string (\<^verbatim>\<open>new Date().toISOString()\<close>) is modelled by the instant it
  denotes. A stored user is a \<^verbatim>\<open>User & { password: string }\<close>. In \<open>user_rec\<close> the
  fields \<open>user_id\<close> and \<open>joined\<close> are \<^verbatim>\<open>id\<close> and \<^verbatim>\<open>createdAt\<close>; the fields of a
  client task other than \<open>userId\<close> carry the prefix \<open>ct_\<close>.
\<close>

record user_rec =
  user_id :: string
  username :: string
  email :: string
  joined :: instant

record stored_user = user_rec +
  password :: string

record client_task =
  ct_id :: string
  userId :: string
  ct_title :: string
  ct_description :: string
  ct_priority :: priority
  ct_status :: status
  ct_createdAt :: instant
  ct_updatedAt :: instant

subsection \<open>Tokens (auth.ts)\<close>

text \<open>
  A token is \<^verbatim>\<open>btoa(JSON.stringify(payload))\<close>: the base64 text of the payload's JSON,
  made without a key. A bearer string is modelled by what \<^verbatim>\<open>JSON.parse(atob(token))\<close>
  makes of it: \<open>Token p\<close> when it decodes to the object \<open>p\<close> (with the three identity
  claims as strings), \<open>Undecodable\<close> when \<^verbatim>\<open>atob\<close> or \<^verbatim>\<open>JSON.parse\<close> throws. Every
  \<open>Token p\<close> is a string that anyone can write down from \<open>p\<close>. In a decoded object
  \<^verbatim>\<open>exp\<close> and \<^verbatim>\<open>createdAt\<close> may be absent.
\<close>

record payload =
  p_id :: string
  p_username :: string
  p_email :: string
  p_exp :: "int option"
  p_createdAt :: "instant option"

datatype token = Token payload | Undecodable

text \<open>\<^verbatim>\<open>exp: Date.now() + (24 * 60 * 60 * 1000)\<close>\<close>

definition generateToken :: "instant \<Rightarrow> user_rec \<Rightarrow> token" where
  "generateToken now u =
     Token \<lparr> p_id = user_id u, p_username = username u, p_email = email u,
             p_exp = Some (now + 24 * 60 * 60 * 1000), p_createdAt = None \<rparr>"

text \<open>
  \<^verbatim>\<open>verifyToken\<close> returns \<^verbatim>\<open>User | null\<close>. An absent \<^verbatim>\<open>exp\<close> compares as
  \<^verbatim>\<open>undefined < Date.now()\<close>, which is false.
\<close>

definition verifyToken :: "instant \<Rightarrow> token \<Rightarrow> user_rec option" where
  "verifyToken now tok =
     (case tok of
        Undecodable \<Rightarrow> None
      | Token p \<Rightarrow>
          if (case p_exp p of None \<Rightarrow> False | Some e \<Rightarrow> e < now) then None
          else Some \<lparr> user_id = p_id p, username = p_username p, email = p_email p,
                      joined = (case p_createdAt p of None \<Rightarrow> now | Some c \<Rightarrow> c) \<rparr>)"

subsection \<open>Passwords (auth.ts)\<close>

text \<open>
  \<open>sha\<close> is the platform's digest, \<^verbatim>\<open>crypto.subtle.digest('SHA-256', ...)\<close>, rendered
  in hexadecimal; it is a parameter.
\<close>

definition hashPassword :: "(string \<Rightarrow> string) \<Rightarrow> string \<Rightarrow> string" where
  "hashPassword sha pw = sha (pw @ ''salt'')"

definition comparePassword :: "(string \<Rightarrow> string) \<Rightarrow> string \<Rightarrow> string \<Rightarrow> bool" where
  "comparePassword sha pw hash = (hashPassword sha pw = hash)"

subsection \<open>The simulated API (api.ts)\<close>

text \<open>
  The two arrays of \<^verbatim>\<open>TaskAPI\<close> (\<^verbatim>\<open>saveToStorage\<close> copies them to local storage and is
  left out); \<^verbatim>\<open>throw new Error(m)\<close> is \<open>Inl (Error m)\<close>. One clock reading \<open>now\<close>
  serves a whole call.
\<close>

record api_state =
  users :: "stored_user list"
  tasks :: "client_task list"

datatype api_error = Error string

text \<open>\<^verbatim>\<open>Date.now().toString()\<close>: the decimal digits of the clock reading.\<close>

fun digits :: "nat \<Rightarrow> string" where
  "digits n = (if n < 10 then [char_of (48 + n)] else digits (n div 10) @ [char_of (48 + n mod 10)])"

declare digits.simps [simp del]

definition toString :: "int \<Rightarrow> string" where
  "toString i = (if i < 0 then CHR ''-'' # digits (nat (- i)) else digits (nat i))"

definition without_password :: "stored_user \<Rightarrow> user_rec" where
  "without_password u = \<lparr> user_id = user_id u, username = username u, email = email u, joined = joined u \<rparr>"

definition register ::
  "(string \<Rightarrow> string) \<Rightarrow> instant \<Rightarrow> string \<Rightarrow> string \<Rightarrow> string \<Rightarrow> api_state
     \<Rightarrow> (api_error + user_rec \<times> token) \<times> api_state" where
  "register sha now name mail pw st =
     (case find (\<lambda>u. email u = mail) (users st) of
        Some existing \<Rightarrow> (Inl (Error ''User already exists with this email''), st)
      | None \<Rightarrow>
          (let u = \<lparr> user_id = toString now, username = name, email = mail, joined = now,
                     password = hashPassword sha pw \<rparr>
           in (Inr (without_password u, generateToken now (without_password u)),
               st\<lparr>users := users st @ [u]\<rparr>)))"

definition login ::
  "(string \<Rightarrow> string) \<Rightarrow> instant \<Rightarrow> string \<Rightarrow> string \<Rightarrow> api_state
     \<Rightarrow> api_error + user_rec \<times> token" where
  "login sha now mail pw st =
     (case find (\<lambda>u. email u = mail) (users st) of
        None \<Rightarrow> Inl (Error ''Invalid credentials'')
      | Some u \<Rightarrow>
          if comparePassword sha pw (password u) then
            Inr (without_password u, generateToken now (without_password u))
          else Inl (Error ''Invalid credentials''))"

text \<open>\<^verbatim>\<open>Partial<Task>\<close>: the keys of an update, each present or not.\<close>

record task_updates =
  u_id :: "string option"
  u_userId :: "string option"
  u_title :: "string option"
  u_description :: "string option"
  u_priority :: "priority option"
  u_status :: "status option"
  u_createdAt :: "instant option"
  u_updatedAt :: "instant option"

fun findIndex :: "('a \<Rightarrow> bool) \<Rightarrow> 'a list \<Rightarrow> nat option" where
  "findIndex P [] = None"
| "findIndex P (x # xs) = (if P x then Some 0 else map_option Suc (findIndex P xs))"

text \<open>\<^verbatim>\<open>{ ...task, ...updates, updatedAt: new Date().toISOString() }\<close>\<close>

definition spread :: "instant \<Rightarrow> task_updates \<Rightarrow> client_task \<Rightarrow> client_task" where
  "spread now u t =
     \<lparr> ct_id = (case u_id u of None \<Rightarrow> ct_id t | Some v \<Rightarrow> v),
       userId = (case u_userId u of None \<Rightarrow> userId t | Some v \<Rightarrow> v),
       ct_title = (case u_title u of None \<Rightarrow> ct_title t | Some v \<Rightarrow> v),
       ct_description = (case u_description u of None \<Rightarrow> ct_description t | Some v \<Rightarrow> v),
       ct_priority = (case u_priority u of None \<Rightarrow> ct_priority t | Some v \<Rightarrow> v),
       ct_status = (case u_status u of None \<Rightarrow> ct_status t | Some v \<Rightarrow> v),
       ct_createdAt = (case u_createdAt u of None \<Rightarrow> ct_createdAt t | Some v \<Rightarrow> v),
       ct_updatedAt = now \<rparr>"

definition api_updateTask ::
  "instant \<Rightarrow> string \<Rightarrow> string \<Rightarrow> task_updates \<Rightarrow> api_state
     \<Rightarrow> (api_error + client_task) \<times> api_state" where
  "api_updateTask now owner taskId updates st =
     (case findIndex (\<lambda>t. ct_id t = taskId \<and> userId t = owner) (tasks st) of
        None \<Rightarrow> (Inl (Error ''Task not found''), st)
      | Some i \<Rightarrow>
          (let t' = spread now updates (tasks st ! i)
           in (Inr t', st\<lparr>tasks := (tasks st)[i := t']\<rparr>)))"

text \<open>\<^verbatim>\<open>this.tasks.splice(taskIndex, 1)\<close>\<close>

definition api_deleteTask ::
  "string \<Rightarrow> string \<Rightarrow> api_state \<Rightarrow> (api_error + unit) \<times> api_state" where
  "api_deleteTask owner taskId st =
     (case findIndex (\<lambda>t. ct_id t = taskId \<and> userId t = owner) (tasks st) of
        None \<Rightarrow> (Inl (Error ''Task not found''), st)
      | Some i \<Rightarrow> (Inr (), st\<lparr>tasks := take i (tasks st) @ drop (Suc i) (tasks st)\<rparr>))"

subsection \<open>\<^verbatim>\<open>filteredAndSortedTasks\<close> of the Dashboard\<close>

text \<open>
  The comparator of \<^verbatim>\<open>filtered.sort\<close>. \<^verbatim>\<open>priorityOrder\<close> and \<^verbatim>\<open>statusOrder\<close> are the
  two tables of the source. The sort key of the other fields is the title (compared as
  a string) or the instant of the timestamp.
\<close>

fun priorityOrder :: "priority \<Rightarrow> int" where
  "priorityOrder High = 3"
| "priorityOrder Medium = 2"
| "priorityOrder Low = 1"

fun statusOrder :: "status \<Rightarrow> int" where
  "statusOrder Todo = 1"
| "statusOrder InProgress = 2"
| "statusOrder Completed = 3"

fun greater_key :: "sort_field \<Rightarrow> client_task \<Rightarrow> client_task \<Rightarrow> bool" where
  "greater_key SortPriority a b = (priorityOrder (ct_priority a) > priorityOrder (ct_priority b))"
| "greater_key SortStatus a b = (statusOrder (ct_status a) > statusOrder (ct_status b))"
| "greater_key SortCreatedAt a b = (ct_createdAt a > ct_createdAt b)"
| "greater_key SortUpdatedAt a b = (ct_updatedAt a > ct_updatedAt b)"
| "greater_key SortTitle a b = (ct_title a > ct_title b)"

definition compare_tasks :: "sort_field \<Rightarrow> sort_order \<Rightarrow> client_task \<Rightarrow> client_task \<Rightarrow> int" where
  "compare_tasks sortBy sortOrder a b =
     (case sortOrder of
        Asc \<Rightarrow> (if greater_key sortBy a b then 1 else - 1)
      | Desc \<Rightarrow> (if greater_key sortBy b a then 1 else - 1))"

text \<open>
  \<^verbatim>\<open>Array.prototype.sort(compare)\<close> as V8 runs it, by binary insertion: each element
  \<open>x\<close> is placed in the part sorted so far, behind the elements \<open>y\<close> with
  \<open>compare x y\<close> not negative and before the first one with \<open>compare x y\<close> negative.
  (V8 finds the place by bisection; in a part that is ordered by the comparator it is
  this place.) The comparator of the Dashboard never returns 0, so an element goes in
  front of the earlier elements with the same key. The language leaves the order of
  such elements to the engine.
\<close>

definition insert_js :: "('a \<Rightarrow> 'a \<Rightarrow> int) \<Rightarrow> 'a list \<Rightarrow> 'a \<Rightarrow> 'a list" where
  "insert_js cmp acc x =
     takeWhile (\<lambda>y. 0 \<le> cmp x y) acc @ [x] @ dropWhile (\<lambda>y. 0 \<le> cmp x y) acc"

definition js_sort :: "('a \<Rightarrow> 'a \<Rightarrow> int) \<Rightarrow> 'a list \<Rightarrow> 'a list" where
  "js_sort cmp xs = foldl (insert_js cmp) [] xs"

text \<open>
  \<^verbatim>\<open>FilterOptions\<close>. \<^verbatim>\<open>toLowerCase\<close> on a byte string, and \<^verbatim>\<open>String.prototype.includes\<close>.
\<close>

record filter_options =
  f_search :: string
  f_priority :: string
  f_status :: string
  f_sortBy :: sort_field
  f_sortOrder :: sort_order

definition lower_char :: "char \<Rightarrow> char" where
  "lower_char c =
     (let n = (of_char c :: nat)
      in if (65 \<le> n \<and> n \<le> 90) \<or> (192 \<le> n \<and> n \<le> 222 \<and> n \<noteq> 215) then char_of (n + 32) else c)"

definition toLowerCase :: "string \<Rightarrow> string" where
  "toLowerCase s = map lower_char s"

fun startsWith :: "string \<Rightarrow> string \<Rightarrow> bool" where
  "startsWith s [] = True"
| "startsWith [] (p # ps) = False"
| "startsWith (c # cs) (p # ps) = (c = p \<and> startsWith cs ps)"

fun str_includes :: "string \<Rightarrow> string \<Rightarrow> bool" where
  "str_includes [] p = (p = [])"
| "str_includes (c # cs) p = (startsWith (c # cs) p \<or> str_includes cs p)"

definition matches_filters :: "filter_options \<Rightarrow> client_task \<Rightarrow> bool" where
  "matches_filters f t =
     ((if f_search f = [] then True
       else (str_includes (toLowerCase (ct_title t)) (toLowerCase (f_search f)) \<or>
             str_includes (toLowerCase (ct_description t)) (toLowerCase (f_search f)))) \<and>
      (if f_priority f = [] then True else priority_str (ct_priority t) = f_priority f) \<and>
      (if f_status f = [] then True else status_str (ct_status t) = f_status f))"

definition filteredAndSortedTasks :: "filter_options \<Rightarrow> client_task list \<Rightarrow> client_task list" where
  "filteredAndSortedTasks f ts =
     js_sort (compare_tasks (f_sortBy f) (f_sortOrder f)) (filter (matches_filters f) ts)"

section \<open>Example data\<close>

text \<open>
  A to-do task of user 7 that was created without a due date, and the payload with no
  key.
\<close>

definition report_task :: task where
  "report_task =
     \<lparr> task_id = 1, title = ''report'', description = None, priority = Medium, status = Todo,
       user = 7, dueDate = Missing, completedAt = Missing, tags = [], isArchived = False,
       createdAt = 0, updatedAt = 0 \<rparr>"

definition empty_body :: task_body where
  "empty_body =
     \<lparr> b_title = None, b_description = None, b_priority = None, b_status = None, b_user = None,
       b_dueDate = Missing, b_completedAt = Missing, b_tags = None, b_isArchived = None \<rparr>"

definition foreign_task :: task where
  "foreign_task = report_task\<lparr>task_id := 2, user := 8\<rparr>"

text \<open>A create payload that names user 8 as owner, and the task that user 7 gets from it.\<close>

definition plan_body :: task_body where
  "plan_body = empty_body\<lparr>b_title := Some ''plan'', b_status := Some Todo, b_user := Some 8\<rparr>"

definition plan_task :: task where
  "plan_task =
     \<lparr> task_id = 2, title = ''plan'', description = None, priority = Medium, status = Todo,
       user = 7, dueDate = Missing, completedAt = Missing, tags = [], isArchived = False,
       createdAt = 50, updatedAt = 50 \<rparr>"

text \<open>A client-side task of user \<^verbatim>\<open>"8"\<close>, and the update with no key.\<close>

definition errand :: client_task where
  "errand =
     \<lparr> ct_id = ''41'', userId = ''8'', ct_title = ''errand'', ct_description = [],
       ct_priority = Low, ct_status = Todo, ct_createdAt = 0, ct_updatedAt = 0 \<rparr>"

definition no_updates :: task_updates where
  "no_updates =
     \<lparr> u_id = None, u_userId = None, u_title = None, u_description = None,
       u_priority = None, u_status = None, u_createdAt = None, u_updatedAt = None \<rparr>"

text \<open>
  Three tasks of user 7 with the priorities low, high, medium and the statuses completed,
  todo, in-progress; the same three on the client; the query and the filter with no key.
\<close>

definition chores :: "task list" where
  "chores =
     [report_task\<lparr>task_id := 1, priority := Low, status := Completed\<rparr>,
      report_task\<lparr>task_id := 2, priority := High, status := Todo\<rparr>,
      report_task\<lparr>task_id := 3, priority := Medium, status := InProgress\<rparr>]"

definition all_tasks :: task_query where
  "all_tasks =
     \<lparr> q_page = None, q_limit = None, q_search = None, q_priority = None, q_status = None,
       q_sortBy = None, q_sortOrder = None, q_includeArchived = None \<rparr>"

definition client_chores :: "client_task list" where
  "client_chores =
     [errand\<lparr>ct_id := ''1'', ct_priority := Low, ct_status := Completed\<rparr>,
      errand\<lparr>ct_id := ''2'', ct_priority := High, ct_status := Todo\<rparr>,
      errand\<lparr>ct_id := ''3'', ct_priority := Medium, ct_status := InProgress\<rparr>]"

definition no_filters :: filter_options where
  "no_filters =
     \<lparr> f_search = [], f_priority = [], f_status = [], f_sortBy = SortCreatedAt,
       f_sortOrder = Desc \<rparr>"

text \<open>
  Two users, as \<open>register\<close> makes them at the instants 1000 and 2000. In the examples
  the digest is string reversal; \<open>alice_stored\<close> holds the digest of \<^verbatim>\<open>Passw0rdsalt\<close>.
\<close>

definition example_digest :: "string \<Rightarrow> string" where
  "example_digest s = rev s"

definition alice :: user_rec where
  "alice = \<lparr> user_id = toString 1000, username = ''alice'', email = ''a@x.com'', joined = 1000 \<rparr>"

definition alice_stored :: stored_user where
  "alice_stored =
     \<lparr> user_id = toString 1000, username = ''alice'', email = ''a@x.com'', joined = 1000,
       password = ''tlasdr0wssaP'' \<rparr>"

definition mallory :: user_rec where
  "mallory =
     \<lparr> user_id = toString 2000, username = ''mallory'', email = ''m@x.com'', joined = 2000 \<rparr>"

text \<open>
  Editing a token: decode the base64 text, change the JSON object, encode it again. No
  key is needed.
\<close>

definition tamper :: "(payload \<Rightarrow> payload) \<Rightarrow> token \<Rightarrow> token" where
  "tamper f tok = (case tok of Token p \<Rightarrow> Token (f p) | Undecodable \<Rightarrow> Undecodable)"

section \<open>Statistics\<close>

lemma sum_cond_Nil: "sum_cond c [] = 0"
  by (simp add: sum_cond_def)

lemma sum_cond_Cons: "sum_cond c (t # ts) = (if c t then 1 else 0) + sum_cond c ts"
  by (simp add: sum_cond_def)

lemma sum_cond_count: "sum_cond c ts = length (filter c ts)"
  by (induction ts) (simp_all add: sum_cond_Nil sum_cond_Cons)

lemma match_stage_empty_iff:
  "match_stage owner db = [] \<longleftrightarrow> (\<forall>t \<in> set db. user t = owner \<longrightarrow> isArchived t)"
  by (auto simp add: match_stage_def filter_empty_conv)

text \<open>
  Where the call \<^verbatim>\<open>mongoose.Types.ObjectId(userId)\<close> returns, a user none of whose
  tasks is non-archived (in particular a user with no task at all) gets the explicit
  all-zero record: the aggregation emits no group document and the fallback object is
  returned.
\<close>

lemma stats_all_zero_when_call_returns:
  assumes "\<forall>t \<in> set db. user t = owner \<longrightarrow> isArchived t"
  shows "getTaskStats ReturnsId now owner db =
           Inr \<lparr> total = 0, completed = 0, inProgress = 0, todo = 0, highPriority = 0,
                 overdue = 0 \<rparr>"
proof -
  from assms have "match_stage owner db = []"
    by (simp add: match_stage_empty_iff)
  then have "aggregate now owner db = []"
    by (simp add: aggregate_def group_stage_def)
  then show ?thesis
    by (simp add: getTaskStats_def call_ObjectId_def)
qed

text \<open>
  C10. Where \<^verbatim>\<open>ObjectId\<close> is a class (Mongoose 7 and later), \<open>getTaskStats\<close> ends in a
  \<^verbatim>\<open>TypeError\<close> for every user and every collection, so also for a user with no task
  and for a user whose only task is archived: no record is returned.
\<close>

theorem stats_throw_where_ObjectId_is_a_class:
  "getTaskStats ThrowsTypeError now owner db = Inl (Thrown ''TypeError'') \<and>
   getTaskStats ThrowsTypeError 1000 7 [] = Inl (Thrown ''TypeError'') \<and>
   getTaskStats ThrowsTypeError 1000 7 [report_task\<lparr>isArchived := True\<rparr>] =
     Inl (Thrown ''TypeError'')"
  by (simp add: getTaskStats_def call_ObjectId_def)

text \<open>
  The statistics range over the owner's non-archived tasks only, and archiving a task
  through \<open>toggleArchiveTask\<close> keeps the number of stored documents.
\<close>

lemma stats_ignore_other_documents:
  "getTaskStats lib now owner db = getTaskStats lib now owner (match_stage owner db)"
  by (cases lib) (simp_all add: getTaskStats_def call_ObjectId_def aggregate_def match_stage_def)

lemma toggleArchive_keeps_length:
  "length (snd (toggleArchiveTask now owner tid db)) = length db"
  by (simp add: toggleArchiveTask_def save_def Let_def split: option.splits)

text \<open>
  With a due date that is a date, the pipeline's condition and the \<open>isOverdue\<close>
  virtual agree; so they do for a stored \<^verbatim>\<open>null\<close>.
\<close>

lemma overdue_cond_Date:
  "dueDate t = Date d \<Longrightarrow> overdue_cond now t = (d < now \<and> status t \<noteq> Completed)"
  by (simp add: overdue_cond_def agg_ne_def)

lemma overdue_cond_Null: "dueDate t = Null \<Longrightarrow> overdue_cond now t = False"
  by (simp add: overdue_cond_def agg_ne_def)

lemma overdue_cond_isOverdue:
  "dueDate t \<noteq> Missing \<Longrightarrow> overdue_cond now t = isOverdue now t"
  by (cases "dueDate t") (simp_all add: overdue_cond_def agg_ne_def isOverdue_def)

text \<open>
  C8. The count \<open>overdue\<close> at a single non-archived to-do task whose document has no
  \<^verbatim>\<open>dueDate\<close> key. Where the call \<^verbatim>\<open>mongoose.Types.ObjectId(userId)\<close> returns, the
  pipeline counts the task (the missing value is less than the date and is not equal to
  \<^verbatim>\<open>null\<close>), while the \<open>isOverdue\<close> virtual of the same task is false. Where the call
  throws, no statistics are returned at all.
\<close>

theorem stats_count_task_without_due_date_overdue:
  "getTaskStats ReturnsId 1000 7 [report_task] =
     Inr \<lparr> total = 1, completed = 0, inProgress = 0, todo = 1, highPriority = 0,
           overdue = 1 \<rparr> \<and>
   dueDate report_task = Missing \<and> isOverdue 1000 report_task = False \<and>
   getTaskStats ThrowsTypeError 1000 7 [report_task] = Inl (Thrown ''TypeError'')"
  by (simp add: getTaskStats_def call_ObjectId_def aggregate_def group_stage_def
      match_stage_def sum_cond_def overdue_cond_def agg_ne_def isOverdue_def report_task_def)

section \<open>The completed-at invariant\<close>

text \<open>
  A save that modified \<^verbatim>\<open>status\<close> leaves \<^verbatim>\<open>completedAt\<close> set exactly when the status is
  \<^verbatim>\<open>completed\<close>.
\<close>

lemma pre_save_invariant:
  "truthy (completedAt (pre_save True now t)) = (status (pre_save True now t) = Completed)"
  by (cases "completedAt t") (simp_all add: pre_save_def)

text \<open>So a task that \<open>createTask\<close> makes from a payload with a status satisfies it.\<close>

lemma create_sets_completedAt:
  assumes "createTask now nid uid body db = (Inr t, db')" "b_status body \<noteq> None"
  shows "truthy (completedAt t) = (status t = Completed)"
proof -
  from assms have "t = pre_save True now (new_task now nid uid (body\<lparr>b_user := Some uid\<rparr>))"
    by (auto simp add: createTask_def Let_def split: if_splits)
  then show ?thesis
    by (simp add: pre_save_invariant)
qed

text \<open>
  C1. Three updates of a stored task, showing the status and \<^verbatim>\<open>completedAt\<close> that are
  stored afterwards: \<open>updateTask\<close> to \<^verbatim>\<open>completed\<close> leaves \<^verbatim>\<open>completedAt\<close> absent,
  \<open>updateTask\<close> of a completed task to \<^verbatim>\<open>todo\<close> leaves its \<^verbatim>\<open>completedAt\<close> in place,
  and \<open>bulkUpdateTasks\<close> to \<^verbatim>\<open>completed\<close> leaves \<^verbatim>\<open>completedAt\<close> absent.
\<close>

theorem updates_bypass_completedAt:
  "map (\<lambda>t. (status t, completedAt t))
     (snd (updateTask 50 7 1 (empty_body\<lparr>b_status := Some Completed\<rparr>) [report_task])) =
     [(Completed, Missing)] \<and>
   map (\<lambda>t. (status t, completedAt t))
     (snd (updateTask 50 7 1 (empty_body\<lparr>b_status := Some Todo\<rparr>)
        [report_task\<lparr>status := Completed, completedAt := Date 10\<rparr>])) =
     [(Todo, Date 10)] \<and>
   map (\<lambda>t. (status t, completedAt t))
     (snd (bulkUpdateTasks 50 7 (Some [Oid 1]) (empty_body\<lparr>b_status := Some Completed\<rparr>)
        [report_task])) =
     [(Completed, Missing)]"
  by (simp add: updateTask_def findOne_def findByIdAndUpdate_def validators_pass_def
      apply_update_def bulkUpdateTasks_def updateMany_def bulk_filter_def report_task_def
      empty_body_def)

section \<open>Ownership\<close>

lemma findOne_None:
  "\<forall>t \<in> set db. task_id t = tid \<longrightarrow> user t \<noteq> uid \<Longrightarrow> findOne tid uid db = None"
  by (auto simp add: findOne_def find_None_iff)

lemma findOne_Some:
  "findOne tid uid db = Some t \<Longrightarrow> t \<in> set db \<and> task_id t = tid \<and> user t = uid"
  by (auto simp add: findOne_def find_Some_iff)

lemma findIndex_None: "\<forall>x \<in> set xs. \<not> P x \<Longrightarrow> findIndex P xs = None"
  by (induction xs) simp_all

text \<open>
  C2. When no stored task has both the given id and the caller as owner (the id is
  absent, or its task belongs to someone else), \<open>getTask\<close>, \<open>updateTask\<close> and
  \<open>deleteTask\<close> answer 404 \<^verbatim>\<open>Task not found\<close>, return no task and leave the collection
  as it was; the answer equals the one for a collection \<open>db0\<close> in which the id does
  not occur at all. The same holds for \<open>api_updateTask\<close> and \<open>api_deleteTask\<close> of the
  client's simulated API.
\<close>

theorem foreign_or_absent_task_not_found:
  assumes server: "\<forall>t \<in> set db. task_id t = tid \<longrightarrow> user t \<noteq> uid"
      and absent: "\<forall>t \<in> set db0. task_id t \<noteq> tid"
      and client: "\<forall>t \<in> set (tasks st). ct_id t = taskId \<longrightarrow> userId t \<noteq> owner"
  shows "getTask uid tid db = Inl (Http 404 ''Task not found'') \<and>
         updateTask now uid tid body db = (Inl (Http 404 ''Task not found''), db) \<and>
         deleteTask uid tid db = (Inl (Http 404 ''Task not found''), db) \<and>
         getTask uid tid db = getTask uid tid db0 \<and>
         fst (updateTask now uid tid body db) = fst (updateTask now uid tid body db0) \<and>
         fst (deleteTask uid tid db) = fst (deleteTask uid tid db0) \<and>
         api_updateTask now owner taskId updates st = (Inl (Error ''Task not found''), st) \<and>
         api_deleteTask owner taskId st = (Inl (Error ''Task not found''), st)"
proof -
  have a: "findOne tid uid db = None"
    using server by (rule findOne_None)
  have b: "findOne tid uid db0 = None"
    using absent by (intro findOne_None) simp
  have c: "findIndex (\<lambda>t. ct_id t = taskId \<and> userId t = owner) (tasks st) = None"
    using client by (intro findIndex_None) blast
  show ?thesis
    by (simp add: getTask_def updateTask_def deleteTask_def api_updateTask_def
        api_deleteTask_def a b c)
qed

theorem foreign_task_not_found_example:
  "getTask 7 2 [foreign_task] = Inl (Http 404 ''Task not found'') \<and>
   updateTask 50 7 2 (empty_body\<lparr>b_title := Some ''mine''\<rparr>) [foreign_task] =
     (Inl (Http 404 ''Task not found''), [foreign_task]) \<and>
   deleteTask 7 2 [foreign_task] = (Inl (Http 404 ''Task not found''), [foreign_task]) \<and>
   getTask 7 2 [foreign_task] = getTask 7 2 [] \<and>
   fst (updateTask 50 7 2 (empty_body\<lparr>b_title := Some ''mine''\<rparr>) [foreign_task]) =
     fst (updateTask 50 7 2 (empty_body\<lparr>b_title := Some ''mine''\<rparr>) []) \<and>
   fst (deleteTask 7 2 [foreign_task]) = fst (deleteTask 7 2 []) \<and>
   api_updateTask 50 ''7'' ''41'' (no_updates\<lparr>u_title := Some ''mine''\<rparr>)
       \<lparr>users = [], tasks = [errand]\<rparr> =
     (Inl (Error ''Task not found''), \<lparr>users = [], tasks = [errand]\<rparr>) \<and>
   api_deleteTask ''7'' ''41'' \<lparr>users = [], tasks = [errand]\<rparr> =
     (Inl (Error ''Task not found''), \<lparr>users = [], tasks = [errand]\<rparr>)"
proof -
  have server: "\<forall>t \<in> set [foreign_task]. task_id t = 2 \<longrightarrow> user t \<noteq> 7"
    by (simp add: foreign_task_def)
  have absent: "\<forall>t \<in> set ([] :: task list). task_id t \<noteq> 2"
    by simp
  have client:
    "\<forall>t \<in> set (tasks \<lparr>users = [], tasks = [errand]\<rparr>). ct_id t = ''41'' \<longrightarrow> userId t \<noteq> ''7''"
    by (simp add: errand_def)
  show ?thesis
    by (rule foreign_or_absent_task_not_found [OF server absent client])
qed

subsection \<open>The owner of a task\<close>

lemma create_ignores_owner_key:
  "createTask now nid uid (body\<lparr>b_user := x\<rparr>) db = createTask now nid uid body db"
  by (simp add: createTask_def validators_pass_def new_task_def)

lemma create_owner:
  "createTask now nid uid body db = (Inr t, db') \<Longrightarrow> user t = uid \<and> db' = db @ [t]"
  by (auto simp add: createTask_def Let_def pre_save_def new_task_def split: if_splits)

lemma user_apply_update: "b_user body = None \<Longrightarrow> user (apply_update now body t) = user t"
  by (simp add: apply_update_def)

lemma update_keeps_owner:
  "b_user body = None \<Longrightarrow> map user (snd (updateTask now uid tid body db)) = map user db"
  by (auto simp add: updateTask_def findByIdAndUpdate_def user_apply_update
      split: option.splits sum.splits prod.splits if_splits)

lemma bulk_keeps_owner:
  "b_user body = None \<Longrightarrow> map user (snd (bulkUpdateTasks now uid ids body db)) = map user db"
  by (auto simp add: bulkUpdateTasks_def updateMany_def user_apply_update
      split: option.splits sum.splits prod.splits if_splits)

lemma user_pre_save: "user (pre_save m now t) = user t"
  by (simp add: pre_save_def)

lemma toggle_keeps_owner:
  assumes "distinct (map task_id db)"
  shows "map user (snd (toggleArchiveTask now uid tid db)) = map user db"
proof (cases "findOne tid uid db")
  case None
  then show ?thesis by (simp add: toggleArchiveTask_def)
next
  case (Some t)
  then have t: "t \<in> set db" "task_id t = tid" "user t = uid"
    using findOne_Some by blast+
  have "\<And>d. d \<in> set db \<Longrightarrow> task_id d = tid \<Longrightarrow> user d = uid"
    using assms t by (metis distinct_map inj_on_def)
  then show ?thesis
    using Some t by (simp add: toggleArchiveTask_def save_def Let_def user_pre_save pre_save_def)
qed

lemma delete_keeps_others: "set (snd (deleteTask uid tid db)) \<subseteq> set db"
  by (auto simp add: deleteTask_def split: option.splits)

lemma findIndex_Some: "findIndex P xs = Some i \<Longrightarrow> i < length xs \<and> P (xs ! i)"
proof (induction xs arbitrary: i)
  case Nil
  then show ?case by simp
next
  case (Cons x xs)
  then show ?case
    by (cases "P x") (auto simp add: nth_Cons')
qed

lemma userId_spread: "u_userId updates = None \<Longrightarrow> userId (spread now updates t) = userId t"
  by (simp add: spread_def)

lemma api_update_keeps_owner:
  assumes "u_userId updates = None"
  shows "map userId (tasks (snd (api_updateTask now owner taskId updates st))) =
         map userId (tasks st)"
proof (cases "findIndex (\<lambda>t. ct_id t = taskId \<and> userId t = owner) (tasks st)")
  case None
  then show ?thesis by (simp add: api_updateTask_def)
next
  case (Some i)
  then have "i < length (tasks st)"
    using findIndex_Some by fastforce
  then have "(map userId (tasks st))[i := userId (tasks st ! i)] = map userId (tasks st)"
    by (simp add: list_update_same_conv)
  then show ?thesis
    using Some assms by (simp add: api_updateTask_def Let_def map_update userId_spread)
qed

text \<open>
  C3, as the claim states it, fails: the owner of task 1 updates it with a payload that
  has the key \<^verbatim>\<open>user\<close>, and the stored owner changes from 7 to 8.
\<close>

theorem update_with_owner_key_reassigns_task:
  "user report_task = 7 \<and>
   map user (snd (updateTask 50 7 1 (empty_body\<lparr>b_user := Some 8\<rparr>) [report_task])) = [8]"
  by (simp add: updateTask_def findOne_def findByIdAndUpdate_def validators_pass_def
      apply_update_def report_task_def empty_body_def)

text \<open>
  C3, amended. \<open>createTask\<close> does not depend on the \<^verbatim>\<open>user\<close> key of the payload, and
  the task it creates belongs to the caller. The owners of the stored tasks are the
  same after \<open>updateTask\<close> and \<open>bulkUpdateTasks\<close> with a payload that has no \<^verbatim>\<open>user\<close>
  key, and after \<open>toggleArchiveTask\<close> (the ids of a collection are distinct);
  \<open>deleteTask\<close> leaves only tasks that were stored, as they were. On the client,
  \<open>api_updateTask\<close> with an update that has no \<^verbatim>\<open>userId\<close> key keeps every owner.
\<close>

theorem owner_from_caller_and_kept_without_owner_key:
  "createTask now nid uid (body\<lparr>b_user := x\<rparr>) db = createTask now nid uid body db \<and>
   (\<forall>t db'. createTask now nid uid body db = (Inr t, db') \<longrightarrow> user t = uid \<and> db' = db @ [t]) \<and>
   (b_user patch = None \<longrightarrow>
      map user (snd (updateTask now uid tid patch db)) = map user db \<and>
      map user (snd (bulkUpdateTasks now uid ids patch db)) = map user db) \<and>
   (distinct (map task_id db) \<longrightarrow>
      map user (snd (toggleArchiveTask now uid tid db)) = map user db) \<and>
   set (snd (deleteTask uid tid db)) \<subseteq> set db \<and>
   (u_userId updates = None \<longrightarrow>
      map userId (tasks (snd (api_updateTask now owner taskId updates st))) =
      map userId (tasks st))"
proof -
  have "user t = uid \<and> db' = db @ [t]"
    if "createTask now nid uid body db = (Inr t, db')" for t db'
    using that by (rule create_owner)
  then show ?thesis
    by (simp add: create_ignores_owner_key update_keeps_owner bulk_keeps_owner
        toggle_keeps_owner delete_keeps_others api_update_keeps_owner)
qed

lemma trim_plan: "trim ''plan'' = ''plan''"
  by (simp add: trim_def is_space_def)

theorem owner_kept_example:
  "createTask 50 2 7 plan_body [report_task] = (Inr plan_task, [report_task, plan_task]) \<and>
   b_user plan_body = Some 8 \<and> user plan_task = 7 \<and>
   map user (snd (updateTask 60 7 1 (empty_body\<lparr>b_status := Some Completed\<rparr>)
     [report_task, plan_task])) = [7, 7] \<and>
   map user (snd (bulkUpdateTasks 60 7 (Some [Oid 1, Oid 2]) (empty_body\<lparr>b_status := Some Completed\<rparr>)
     [report_task, plan_task])) = [7, 7] \<and>
   map user (snd (toggleArchiveTask 60 7 2 [report_task, plan_task])) = [7, 7] \<and>
   map userId (tasks (snd (api_updateTask 60 ''8'' ''41'' (no_updates\<lparr>u_title := Some ''shop''\<rparr>)
     \<lparr>users = [], tasks = [errand]\<rparr>))) = [''8'']"
proof -
  have created:
    "createTask 50 2 7 plan_body [report_task] = (Inr plan_task, [report_task, plan_task])"
    by (simp add: createTask_def plan_body_def empty_body_def validators_pass_def trim_plan
        new_task_def pre_save_def plan_task_def Let_def)
  have no_key: "b_user (empty_body\<lparr>b_status := Some Completed\<rparr>) = None"
    by (simp add: empty_body_def)
  have ids: "distinct (map task_id [report_task, plan_task])"
    by (simp add: report_task_def plan_task_def)
  have owners: "map user [report_task, plan_task] = [7, 7]"
    by (simp add: report_task_def plan_task_def)
  have key: "b_user plan_body = Some 8"
    by (simp add: plan_body_def empty_body_def)
  have no_owner: "u_userId (no_updates\<lparr>u_title := Some ''shop''\<rparr>) = None"
    by (simp add: no_updates_def)
  have client_owners: "map userId (tasks \<lparr>users = [], tasks = [errand]\<rparr>) = [''8'']"
    by (simp add: errand_def)
  have made: "user plan_task = 7"
    using owner_from_caller_and_kept_without_owner_key
      [where now = 50 and nid = 2 and uid = 7 and body = plan_body and db = "[report_task]",
        THEN conjunct2, THEN conjunct1, THEN spec, THEN spec, THEN mp, OF created,
        THEN conjunct1] .
  have updated:
    "map user (snd (updateTask 60 7 1 (empty_body\<lparr>b_status := Some Completed\<rparr>)
       [report_task, plan_task])) = map user [report_task, plan_task] \<and>
     map user (snd (bulkUpdateTasks 60 7 (Some [Oid 1, Oid 2]) (empty_body\<lparr>b_status := Some Completed\<rparr>)
       [report_task, plan_task])) = map user [report_task, plan_task]"
    using owner_from_caller_and_kept_without_owner_key
      [where patch = "empty_body\<lparr>b_status := Some Completed\<rparr>",
        THEN conjunct2, THEN conjunct2, THEN conjunct1, THEN mp, OF no_key] .
  have toggled:
    "map user (snd (toggleArchiveTask 60 7 2 [report_task, plan_task])) =
     map user [report_task, plan_task]"
    using owner_from_caller_and_kept_without_owner_key
      [where db = "[report_task, plan_task]",
        THEN conjunct2, THEN conjunct2, THEN conjunct2, THEN conjunct1, THEN mp, OF ids] .
  have client:
    "map userId (tasks (snd (api_updateTask 60 ''8'' ''41'' (no_updates\<lparr>u_title := Some ''shop''\<rparr>)
       \<lparr>users = [], tasks = [errand]\<rparr>))) = map userId (tasks \<lparr>users = [], tasks = [errand]\<rparr>)"
    using owner_from_caller_and_kept_without_owner_key
      [where updates = "no_updates\<lparr>u_title := Some ''shop''\<rparr>",
        THEN conjunct2, THEN conjunct2, THEN conjunct2, THEN conjunct2, THEN conjunct2,
        THEN mp, OF no_owner] .
  show ?thesis
    using created key made updated toggled client
    by (simp only: owners client_owners simp_thms)
qed

section \<open>Bulk update\<close>



text \<open>An id list holds an element that cannot be cast, or it is a list of ObjectIds.\<close>

lemma id_inputs_cases: "(\<exists>s. NotAnId s \<in> set raw) \<or> (\<exists>ids. raw = map Oid ids)"
proof (induction raw)
  case Nil
  then show ?case by simp
next
  case (Cons r raw)
  show ?case
  proof (cases r)
    case (Oid i)
    from Cons show ?thesis
    proof
      assume "\<exists>s. NotAnId s \<in> set raw"
      then show ?thesis by auto
    next
      assume "\<exists>ids. raw = map Oid ids"
      then obtain ids where "raw = map Oid ids" ..
      then have "r # raw = map Oid (i # ids)"
        using Oid by simp
      then show ?thesis by (intro disjI2 exI [of _ "i # ids"])
    qed
  next
    case (NotAnId s)
    then show ?thesis by auto
  qed
qed






section \<open>Sorting\<close>

text \<open>
  The Dashboard's \<open>filteredAndSortedTasks\<close> orders the three tasks by the ordinal
  tables: priority descending gives high, medium, low, and status ascending gives todo,
  in-progress, completed. Tasks with the same key come out in the reverse of the order
  they had.
\<close>

lemma dashboard_sorts_by_ordinal:
  "map ct_priority
     (filteredAndSortedTasks (no_filters\<lparr>f_sortBy := SortPriority, f_sortOrder := Desc\<rparr>)
        client_chores) = [High, Medium, Low] \<and>
   map ct_status
     (filteredAndSortedTasks (no_filters\<lparr>f_sortBy := SortStatus, f_sortOrder := Asc\<rparr>)
        client_chores) = [Todo, InProgress, Completed]"
  by (simp add: filteredAndSortedTasks_def no_filters_def client_chores_def errand_def
      matches_filters_def js_sort_def insert_js_def compare_tasks_def)

lemma dashboard_reverses_equal_keys:
  "map ct_id
     (filteredAndSortedTasks (no_filters\<lparr>f_sortBy := SortPriority, f_sortOrder := Asc\<rparr>)
        [errand\<lparr>ct_id := ''1''\<rparr>, errand\<lparr>ct_id := ''2''\<rparr>, errand\<lparr>ct_id := ''3''\<rparr>]) =
     [''3'', ''2'', ''1'']"
  by (simp add: filteredAndSortedTasks_def no_filters_def errand_def matches_filters_def
      js_sort_def insert_js_def compare_tasks_def)

text \<open>
  In general: when the comparator is negative exactly where the first key is not
  greater than the second, the sort by \<open>insert_js\<close> orders any list by that key, and
  the Dashboard's list is ordered by the ordinals (by their negatives when descending).
\<close>

lemma insert_js_sorted:
  fixes k :: "'a \<Rightarrow> int"
  assumes cmp: "\<And>a b. (cmp a b < 0) = (k a \<le> k b)"
    and acc: "sorted (map k acc)"
  shows "sorted (map k (insert_js cmp acc x))"
proof -
  let ?P = "\<lambda>y. 0 \<le> cmp x y"
  let ?A = "takeWhile ?P acc" and ?B = "dropWhile ?P acc"
  have "sorted (map k (?A @ ?B))"
    using acc by simp
  then have sorted_AB: "sorted (map k ?A)" "sorted (map k ?B)"
    by (simp_all only: map_append sorted_append)
  have A: "k a \<le> k x" if "a \<in> set ?A" for a
  proof -
    from that have "0 \<le> cmp x a"
      by (auto dest: set_takeWhileD)
    then have "\<not> k x \<le> k a"
      using cmp [of x a] by simp
    then show ?thesis by simp
  qed
  have B: "k x \<le> k b" if "b \<in> set ?B" for b
  proof (cases ?B)
    case Nil
    with that show ?thesis by simp
  next
    case (Cons h t)
    then have "\<not> ?P h"
      by (metis hd_dropWhile list.sel(1) list.distinct(1))
    then have h: "k x \<le> k h"
      using cmp [of x h] by simp
    have "k h \<le> k b"
      using sorted_AB(2) that Cons by auto
    with h show ?thesis by linarith
  qed
  have "k a \<le> k b" if "a \<in> set ?A" "b \<in> set ?B" for a b
    using A [OF that(1)] B [OF that(2)] by linarith
  then have "sorted (map k (?A @ [x] @ ?B))"
    using sorted_AB A B by (simp add: sorted_append)
  then show ?thesis
    by (simp add: insert_js_def)
qed

lemma foldl_insert_js_sorted:
  fixes k :: "'a \<Rightarrow> int"
  assumes "\<And>a b. (cmp a b < 0) = (k a \<le> k b)" "sorted (map k acc)"
  shows "sorted (map k (foldl (insert_js cmp) acc xs))"
  using assms(2)
proof (induction xs arbitrary: acc)
  case Nil
  then show ?case by simp
next
  case (Cons x xs)
  have "sorted (map k (insert_js cmp acc x))"
    using assms(1) Cons.prems by (rule insert_js_sorted)
  then have "sorted (map k (foldl (insert_js cmp) (insert_js cmp acc x) xs))"
    by (rule Cons.IH)
  then show ?case by simp
qed

lemma js_sort_sorted:
  fixes k :: "'a \<Rightarrow> int"
  assumes "\<And>a b. (cmp a b < 0) = (k a \<le> k b)"
  shows "sorted (map k (js_sort cmp xs))"
  unfolding js_sort_def using assms by (rule foldl_insert_js_sorted) simp

lemma set_insert_js: "set (insert_js cmp acc x) = insert x (set acc)"
proof -
  have "set acc = set (takeWhile (\<lambda>y. 0 \<le> cmp x y) acc) \<union>
                  set (dropWhile (\<lambda>y. 0 \<le> cmp x y) acc)"
    by (metis set_append takeWhile_dropWhile_id)
  then show ?thesis
    by (auto simp add: insert_js_def)
qed

lemma set_foldl_insert_js: "set (foldl (insert_js cmp) acc xs) = set acc \<union> set xs"
  by (induction xs arbitrary: acc) (auto simp add: set_insert_js)

lemma set_js_sort: "set (js_sort cmp xs) = set xs"
  by (simp add: js_sort_def set_foldl_insert_js)

lemma dashboard_order:
  "f_sortBy f = SortPriority \<Longrightarrow> f_sortOrder f = Asc \<Longrightarrow>
     sorted (map (\<lambda>t. priorityOrder (ct_priority t)) (filteredAndSortedTasks f ts))"
  "f_sortBy f = SortPriority \<Longrightarrow> f_sortOrder f = Desc \<Longrightarrow>
     sorted (map (\<lambda>t. - priorityOrder (ct_priority t)) (filteredAndSortedTasks f ts))"
  "f_sortBy f = SortStatus \<Longrightarrow> f_sortOrder f = Asc \<Longrightarrow>
     sorted (map (\<lambda>t. statusOrder (ct_status t)) (filteredAndSortedTasks f ts))"
  "f_sortBy f = SortStatus \<Longrightarrow> f_sortOrder f = Desc \<Longrightarrow>
     sorted (map (\<lambda>t. - statusOrder (ct_status t)) (filteredAndSortedTasks f ts))"
  by (simp_all add: filteredAndSortedTasks_def js_sort_sorted compare_tasks_def not_less)

lemma dashboard_keeps_matches:
  "set (filteredAndSortedTasks f ts) = {t \<in> set ts. matches_filters f t}"
  by (simp add: filteredAndSortedTasks_def set_js_sort)

text \<open>
  C4. The server's \<open>getTasks\<close> on the same three tasks: \<^verbatim>\<open>sortBy=priority\<close> with
  \<^verbatim>\<open>sortOrder=desc\<close> returns medium, low, high, and \<^verbatim>\<open>sortBy=status\<close> with
  \<^verbatim>\<open>sortOrder=asc\<close> returns completed, in-progress, todo: the order of the stored
  strings, not of the ordinals.
\<close>

theorem server_sorts_enum_strings_lexicographically:
  "map_sum id (\<lambda>r. map priority (r_data r))
     (getTasks rx 7 (all_tasks\<lparr>q_sortBy := Some SortPriority, q_sortOrder := Some Desc\<rparr>)
        chores) =
     Inr [Medium, Low, High] \<and>
   map_sum id (\<lambda>r. map status (r_data r))
     (getTasks rx 7 (all_tasks\<lparr>q_sortBy := Some SortStatus, q_sortOrder := Some Asc\<rparr>)
        chores) =
     Inr [Completed, InProgress, Todo]"
  by (simp add: getTasks_def all_tasks_def chores_def report_task_def query_matches_def
      mongo_limit_def sort_dir_def Let_def)

section \<open>Pagination\<close>

lemma validate_ok:
  "validateTaskQuery q = [] \<longleftrightarrow>
     (case q_page q of None \<Rightarrow> True | Some p \<Rightarrow> 1 \<le> p) \<and>
     (case q_limit q of None \<Rightarrow> True | Some l \<Rightarrow> 1 \<le> l \<and> l \<le> 100)"
  by (simp add: validateTaskQuery_def split: option.splits)

lemma length_mongo_limit: "0 < n \<Longrightarrow> length (mongo_limit n xs) \<le> nat n"
  by (simp add: mongo_limit_def)

lemma route_limit_rejected:
  assumes "q_limit q = Some l" "l < 1 \<or> 100 < l"
  shows "\<exists>errs. route_getTasks rx uid q db = Inl (Validation errs) \<and>
           ''Limit must be between 1 and 100'' \<in> set errs"
proof -
  have "validateTaskQuery q =
          (case q_page q of
             None \<Rightarrow> []
           | Some p \<Rightarrow> if 1 \<le> p then [] else [''Page must be a positive integer'']) @
          [''Limit must be between 1 and 100'']"
    using assms by (auto simp add: validateTaskQuery_def)
  then have msg: "''Limit must be between 1 and 100'' \<in> set (validateTaskQuery q)"
    by simp
  then obtain e es where "validateTaskQuery q = e # es"
    by (cases "validateTaskQuery q") auto
  then have "route_getTasks rx uid q db = Inl (Validation (validateTaskQuery q))"
    by (simp add: route_getTasks_def)
  with msg show ?thesis
    by blast
qed

lemma route_page:
  assumes "route_getTasks rx uid q db = Inr r"
  shows "1 \<le> r_limit r \<and> r_limit r \<le> 100 \<and>
         r_limit r = (case q_limit q of None \<Rightarrow> 10 | Some l \<Rightarrow> l) \<and>
         r_total r = length (filter (query_matches rx uid q) db) \<and>
         r_count r = length (r_data r) \<and>
         length (r_data r) \<le> nat (r_limit r) \<and>
         r_pages r = Some \<lceil>real (r_total r) / real_of_int (r_limit r)\<rceil>"
proof -
  from assms have v: "validateTaskQuery q = []" and g: "getTasks rx uid q db = Inr r"
    by (auto simp add: route_getTasks_def split: list.splits)
  let ?limit = "case q_limit q of None \<Rightarrow> 10 | Some l \<Rightarrow> l"
  let ?page = "case q_page q of None \<Rightarrow> 1 | Some p \<Rightarrow> p"
  from v have lim: "1 \<le> ?limit" "?limit \<le> 100" and page: "1 \<le> ?page"
    by (auto simp add: validate_ok split: option.splits)
  from g show ?thesis
    using lim page
    by (auto simp add: getTasks_def Let_def length_mongo_limit split: if_splits)
qed

text \<open>
  C6. On the route \<^verbatim>\<open>GET /api/tasks\<close> a limit below 1 or above 100 ends in the
  validation response with the limit's message. Every list response has a limit between
  1 and 100 (the query's, or 10), a total equal to the number of documents that match
  the filter, before sorting and paging, at most limit tasks, and as page count the
  ceiling of total divided by limit.
\<close>

theorem list_pagination:
  "(\<forall>l. q_limit q = Some l \<and> (l < 1 \<or> 100 < l) \<longrightarrow>
      (\<exists>errs. route_getTasks rx uid q db = Inl (Validation errs) \<and>
         ''Limit must be between 1 and 100'' \<in> set errs)) \<and>
   (\<forall>r. route_getTasks rx uid q db = Inr r \<longrightarrow>
      1 \<le> r_limit r \<and> r_limit r \<le> 100 \<and>
      r_limit r = (case q_limit q of None \<Rightarrow> 10 | Some l \<Rightarrow> l) \<and>
      r_total r = length (filter (query_matches rx uid q) db) \<and>
      r_count r = length (r_data r) \<and>
      length (r_data r) \<le> nat (r_limit r) \<and>
      r_pages r = Some \<lceil>real (r_total r) / real_of_int (r_limit r)\<rceil>)"
  using route_limit_rejected [of q _ rx uid db] route_page [of rx uid q db] by blast

theorem list_pagination_example:
  "route_getTasks (\<lambda>p t. False) 7 (all_tasks\<lparr>q_limit := Some 101\<rparr>) chores =
     Inl (Validation [''Limit must be between 1 and 100'']) \<and>
   route_getTasks (\<lambda>p t. False) 7 (all_tasks\<lparr>q_page := Some 2, q_limit := Some 2\<rparr>) chores =
     Inr \<lparr> r_count = 1, r_total = 3, r_page = 2, r_limit = 2, r_pages = Some 2,
           r_data = [report_task\<lparr>task_id := 1, priority := Low, status := Completed\<rparr>] \<rparr> \<and>
   length (filter (query_matches (\<lambda>p t. False) 7
     (all_tasks\<lparr>q_page := Some 2, q_limit := Some 2\<rparr>)) chores) = 3"
proof -
  let ?rx = "\<lambda>p t :: string. False"
  let ?q = "all_tasks\<lparr>q_page := Some 2, q_limit := Some 2\<rparr>"
  let ?r = "\<lparr> r_count = 1, r_total = 3, r_page = 2, r_limit = 2, r_pages = Some 2,
           r_data = [report_task\<lparr>task_id := 1, priority := Low, status := Completed\<rparr>] \<rparr>"
  have too_big:
    "q_limit (all_tasks\<lparr>q_limit := Some 101\<rparr>) = Some 101 \<and>
     ((101 :: int) < 1 \<or> (100 :: int) < 101)"
    by simp
  have rejected:
    "\<exists>errs. route_getTasks ?rx 7 (all_tasks\<lparr>q_limit := Some 101\<rparr>) chores =
        Inl (Validation errs) \<and> ''Limit must be between 1 and 100'' \<in> set errs"
    using list_pagination [where q = "all_tasks\<lparr>q_limit := Some 101\<rparr>",
        THEN conjunct1, THEN spec, THEN mp, OF too_big] .
  have bad: "route_getTasks ?rx 7 (all_tasks\<lparr>q_limit := Some 101\<rparr>) chores =
     Inl (Validation [''Limit must be between 1 and 100''])"
    by (simp add: route_getTasks_def validateTaskQuery_def all_tasks_def)
  have page: "route_getTasks ?rx 7 ?q chores = Inr ?r"
    by (simp add: route_getTasks_def validateTaskQuery_def getTasks_def all_tasks_def
        chores_def report_task_def query_matches_def mongo_limit_def sort_dir_def Let_def)
  have "r_total ?r = length (filter (query_matches ?rx 7 ?q) chores)"
    using list_pagination [where q = ?q, THEN conjunct2, THEN spec, THEN mp, OF page]
    by blast
  then show ?thesis
    using rejected bad page by simp
qed

text \<open>With 250 matching tasks and a limit of 100 the response reports three pages.\<close>

lemma pages_250_by_100:
  assumes "route_getTasks rx uid q db = Inr r" "q_limit q = Some 100"
    and "length (filter (query_matches rx uid q) db) = 250"
  shows "r_pages r = Some 3"
proof -
  have "r_limit r = 100" "r_total r = 250"
    "r_pages r = Some \<lceil>real (r_total r) / real_of_int (r_limit r)\<rceil>"
    using route_page [OF assms(1)] assms(2,3) by simp_all
  then show ?thesis by simp
qed

section \<open>Registration and login\<close>

lemma find_append_new: "find P xs = None \<Longrightarrow> P x \<Longrightarrow> find P (xs @ [x]) = Some x"
  by (induction xs) (auto split: if_splits)

lemma register_then_login:
  assumes "register sha now name mail pw st = (Inr (u, tok), st')"
  shows "login sha now' mail pw st' = Inr (u, generateToken now' u)"
proof -
  let ?new = "\<lparr> user_id = toString now, username = name, email = mail, joined = now,
                 password = hashPassword sha pw \<rparr>"
  from assms have free: "find (\<lambda>u. email u = mail) (users st) = None"
    by (auto simp add: register_def split: option.splits)
  with assms have u: "u = without_password ?new" and st': "users st' = users st @ [?new]"
    by (auto simp add: register_def Let_def)
  have "find (\<lambda>u. email u = mail) (users st') = Some ?new"
    unfolding st' using free by (rule find_append_new) simp
  then show ?thesis
    by (simp add: login_def comparePassword_def u)
qed

lemma login_unknown_email:
  assumes "\<forall>u \<in> set (users st). email u \<noteq> mail"
  shows "login sha now mail pw st = Inl (Error ''Invalid credentials'')"
proof -
  have "find (\<lambda>u. email u = mail) (users st) = None"
    using assms by (simp add: find_None_iff)
  then show ?thesis by (simp add: login_def)
qed

lemma login_wrong_password:
  assumes "find (\<lambda>u. email u = mail) (users st) = Some u"
    and "hashPassword sha pw \<noteq> password u"
  shows "login sha now mail pw st = Inl (Error ''Invalid credentials'')"
  using assms by (simp add: login_def comparePassword_def)

lemma register_accepts_free_email:
  assumes "\<forall>u \<in> set (users st). email u \<noteq> mail"
  shows "\<exists>u tok st'. register sha now name mail pw st = (Inr (u, tok), st')"
proof -
  have "find (\<lambda>u. email u = mail) (users st) = None"
    using assms by (simp add: find_None_iff)
  then show ?thesis
    by (simp add: register_def Let_def)
qed

text \<open>
  C9. When \<open>register\<close> accepts a username, an email and a password, \<open>login\<close> with that
  email and password on the state it leaves returns the user that \<open>register\<close>
  returned. A login whose email no stored user has, and a login whose password does not
  hash to the stored hash, both end in the same error \<^verbatim>\<open>Invalid credentials\<close>, which
  carries no token.
\<close>

theorem register_login_round_trip:
  "(\<forall>u tok st'. register sha now name mail pw st = (Inr (u, tok), st') \<longrightarrow>
      login sha now' mail pw st' = Inr (u, generateToken now' u)) \<and>
   ((\<forall>u \<in> set (users st). email u \<noteq> mail) \<longrightarrow>
      login sha now mail pw' st = Inl (Error ''Invalid credentials'')) \<and>
   (\<forall>u. find (\<lambda>u. email u = mail) (users st) = Some u \<and>
         hashPassword sha pw' \<noteq> password u \<longrightarrow>
      login sha now mail pw' st = Inl (Error ''Invalid credentials''))"
  using register_then_login [of sha now name mail pw st _ _ _ now']
    login_unknown_email [of st mail sha now pw']
    login_wrong_password [of mail st _ sha pw' now]
  by blast

theorem alice_registers_and_logs_in:
  "register example_digest 1000 ''alice'' ''a@x.com'' ''Passw0rd'' \<lparr>users = [], tasks = []\<rparr> =
     (Inr (alice, generateToken 1000 alice), \<lparr>users = [alice_stored], tasks = []\<rparr>) \<and>
   login example_digest 2000 ''a@x.com'' ''Passw0rd'' \<lparr>users = [alice_stored], tasks = []\<rparr> =
     Inr (alice, generateToken 2000 alice) \<and>
   login example_digest 2000 ''b@x.com'' ''Passw0rd'' \<lparr>users = [alice_stored], tasks = []\<rparr> =
     Inl (Error ''Invalid credentials'') \<and>
   login example_digest 2000 ''a@x.com'' ''passw0rd'' \<lparr>users = [alice_stored], tasks = []\<rparr> =
     Inl (Error ''Invalid credentials'')"
proof -
  let ?st = "\<lparr>users = [alice_stored], tasks = []\<rparr>"
  have registered:
    "register example_digest 1000 ''alice'' ''a@x.com'' ''Passw0rd'' \<lparr>users = [], tasks = []\<rparr> =
       (Inr (alice, generateToken 1000 alice), ?st)"
    by (simp add: register_def hashPassword_def example_digest_def without_password_def
        alice_def alice_stored_def Let_def)
  have unknown: "\<forall>u \<in> set (users ?st). email u \<noteq> ''b@x.com''"
    by (simp add: alice_stored_def)
  have wrong: "find (\<lambda>u. email u = ''a@x.com'') (users ?st) = Some alice_stored \<and>
      hashPassword example_digest ''passw0rd'' \<noteq> password alice_stored"
    by (simp add: alice_stored_def hashPassword_def example_digest_def)
  note inst = register_login_round_trip [where sha = example_digest and mail = "''a@x.com''"]
  have a: "login example_digest 2000 ''a@x.com'' ''Passw0rd'' ?st =
      Inr (alice, generateToken 2000 alice)"
    using inst [THEN conjunct1, THEN spec, THEN spec, THEN spec, THEN mp, OF registered] .
  have b: "login example_digest 2000 ''b@x.com'' ''Passw0rd'' ?st =
      Inl (Error ''Invalid credentials'')"
    using register_login_round_trip
      [where mail = "''b@x.com''", THEN conjunct2, THEN conjunct1, THEN mp, OF unknown] .
  have c: "login example_digest 2000 ''a@x.com'' ''passw0rd'' ?st =
      Inl (Error ''Invalid credentials'')"
    using inst [THEN conjunct2, THEN conjunct2, THEN spec, THEN mp, OF wrong] .
  show ?thesis
    using registered a b c by (intro conjI)
qed

section \<open>Tokens\<close>

text \<open>
  C5, as the claim states it, fails. An expired token and a string that does not decode
  get the same answer, \<^verbatim>\<open>null\<close>; and Mallory's token, edited to carry Alice's claims
  and no expiry, is accepted as Alice's.
\<close>

theorem expired_undecodable_and_tampered_tokens:
  "verifyToken 90000000 (generateToken 1000 alice) = None \<and>
   verifyToken 90000000 Undecodable = None \<and>
   verifyToken 3000
     (tamper (\<lambda>p. p\<lparr>p_id := user_id alice, p_username := username alice,
                    p_email := email alice, p_exp := None\<rparr>)
        (generateToken 2000 mallory)) =
     Some (alice\<lparr>joined := 3000\<rparr>)"
  by (simp add: verifyToken_def generateToken_def tamper_def alice_def mallory_def)

text \<open>
  C5, amended. A token made by \<open>generateToken\<close> verifies to the user's id, username and
  email (with the time of verification as \<^verbatim>\<open>createdAt\<close>) until 24 hours after it was
  issued, and to \<^verbatim>\<open>null\<close> afterwards. A string that does not decode verifies to
  \<^verbatim>\<open>null\<close>, and so does every decodable token whose \<^verbatim>\<open>exp\<close> is in the past, whatever
  else it carries. Every decodable token whose \<^verbatim>\<open>exp\<close> is absent or not in the past is
  accepted with the claims it carries (and its \<^verbatim>\<open>createdAt\<close>, or the time of
  verification when it has none).
\<close>

theorem verify_checks_expiry_only:
  "verifyToken now (generateToken issued u) =
     (if issued + 86400000 < now then None else Some (u\<lparr>joined := now\<rparr>)) \<and>
   verifyToken now Undecodable = None \<and>
   (\<forall>e. p_exp p = Some e \<and> e < now \<longrightarrow> verifyToken now (Token p) = None) \<and>
   ((\<forall>e. p_exp p = Some e \<longrightarrow> now \<le> e) \<longrightarrow>
      verifyToken now (Token p) =
        Some \<lparr> user_id = p_id p, username = p_username p, email = p_email p,
               joined = (case p_createdAt p of None \<Rightarrow> now | Some c \<Rightarrow> c) \<rparr>)"
  by (cases "p_exp p") (auto simp add: verifyToken_def generateToken_def)

theorem verify_example:
  "verifyToken 2000 (generateToken 1000 alice) = Some (alice\<lparr>joined := 2000\<rparr>) \<and>
   verifyToken 90000000 (generateToken 1000 alice) = None \<and>
   verifyToken 2000 Undecodable = None \<and>
   verifyToken 2000 (Token \<lparr> p_id = ''7'', p_username = ''bob'', p_email = ''b@x.com'',
      p_exp = Some 2000, p_createdAt = Some 5 \<rparr>) =
     Some \<lparr> user_id = ''7'', username = ''bob'', email = ''b@x.com'', joined = 5 \<rparr> \<and>
   verifyToken 90000000 (Token \<lparr> p_id = ''7'', p_username = ''bob'', p_email = ''b@x.com'',
      p_exp = Some 2000, p_createdAt = Some 5 \<rparr>) = None"
proof -
  let ?p = "\<lparr> p_id = ''7'', p_username = ''bob'', p_email = ''b@x.com'',
      p_exp = Some 2000, p_createdAt = Some (5 :: int) \<rparr>"
  have fresh: "\<forall>e. p_exp ?p = Some e \<longrightarrow> (2000 :: int) \<le> e"
    by simp
  have stale: "p_exp ?p = Some 2000 \<and> (2000 :: int) < 90000000"
    by simp
  have accepted: "verifyToken 2000 (Token ?p) =
      Some \<lparr> user_id = p_id ?p, username = p_username ?p, email = p_email ?p,
             joined = (case p_createdAt ?p of None \<Rightarrow> 2000 | Some c \<Rightarrow> c) \<rparr>"
    using verify_checks_expiry_only
      [THEN conjunct2, THEN conjunct2, THEN conjunct2, THEN mp, OF fresh] .
  have expired: "verifyToken 90000000 (Token ?p) = None"
    using verify_checks_expiry_only
      [THEN conjunct2, THEN conjunct2, THEN conjunct1, THEN spec, THEN mp, OF stale] .
  have issued: "verifyToken 2000 (generateToken 1000 alice) = Some (alice\<lparr>joined := 2000\<rparr>)"
    using verify_checks_expiry_only
      [where now = 2000 and issued = 1000 and u = alice, THEN conjunct1]
    by simp
  have late: "verifyToken 90000000 (generateToken 1000 alice) = None"
    using verify_checks_expiry_only
      [where now = 90000000 and issued = 1000 and u = alice, THEN conjunct1]
    by simp
  have garbage: "verifyToken 2000 Undecodable = None"
    using verify_checks_expiry_only [THEN conjunct2, THEN conjunct1] .
  show ?thesis
    using accepted expired issued late garbage by simp
qed

end
